theory Spec2Isabelle
  imports Complex_Main
begin

section \<open>Python values\<close>

text \<open>
  A Python \<^verbatim>\<open>str\<close> is a sequence of Unicode code points. The grade labels of
  \<^verbatim>\<open>config.py\<close> are not ASCII, so a string is a list of code points here.
\<close>

type_synonym pystr = "nat list"

definition ascii :: "string \<Rightarrow> pystr" where
  "ascii s = map of_char s"

text \<open>
  A Python \<^verbatim>\<open>float\<close> is a finite number or NaN. Finite numbers are exact reals: the
  rounding error of binary arithmetic is not part of this model, and neither are the
  infinities. NaN is kept, because every comparison with it is false and the branches of
  the program are decided by comparisons. A Python \<^verbatim>\<open>int\<close> is the finite number of the
  same value.
\<close>

datatype pyfloat = Fin real | NaN

fun py_add :: "pyfloat \<Rightarrow> pyfloat \<Rightarrow> pyfloat" where
  "py_add (Fin x) (Fin y) = Fin (x + y)"
| "py_add _ _ = NaN"

fun py_sub :: "pyfloat \<Rightarrow> pyfloat \<Rightarrow> pyfloat" where
  "py_sub (Fin x) (Fin y) = Fin (x - y)"
| "py_sub _ _ = NaN"

fun py_mul :: "pyfloat \<Rightarrow> pyfloat \<Rightarrow> pyfloat" where
  "py_mul (Fin x) (Fin y) = Fin (x * y)"
| "py_mul _ _ = NaN"

fun py_lt :: "pyfloat \<Rightarrow> pyfloat \<Rightarrow> bool" where
  "py_lt (Fin x) (Fin y) = (x < y)"
| "py_lt _ _ = False"

fun py_gt :: "pyfloat \<Rightarrow> pyfloat \<Rightarrow> bool" where
  "py_gt (Fin x) (Fin y) = (x > y)"
| "py_gt _ _ = False"

fun py_ge :: "pyfloat \<Rightarrow> pyfloat \<Rightarrow> bool" where
  "py_ge (Fin x) (Fin y) = (x \<ge> y)"
| "py_ge _ _ = False"

fun py_le :: "pyfloat \<Rightarrow> pyfloat \<Rightarrow> bool" where
  "py_le (Fin x) (Fin y) = (x \<le> y)"
| "py_le _ _ = False"

fun py_eq :: "pyfloat \<Rightarrow> pyfloat \<Rightarrow> bool" where
  "py_eq (Fin x) (Fin y) = (x = y)"
| "py_eq _ _ = False"

text \<open>
  The exceptions the program raises. A ValueError carries its message, one constructor per
  raise site; \<^verbatim>\<open>LoadFailed e\<close> is the message that \<^verbatim>\<open>load_from_excel\<close> builds
  from the exception \<^verbatim>\<open>e\<close> it caught. \<^verbatim>\<open>OtherException\<close> is any exception of
  \<^verbatim>\<open>pandas.read_excel\<close> that has no \<^verbatim>\<open>except\<close> clause of its own.
\<close>

datatype py_error =
    ValueError message
  | TypeError
  | FileNotFoundError
  | ZeroDivisionError
  | IndexError
  | OtherException
and message =
    LengthMismatch
  | EmptyCourseData
  | NoDataAverage
  | ZeroCreditsAverage
  | NoDataCourseGpa
  | NoDataOverall
  | ZeroCreditsOverall
  | NotANumber
  | NanToInteger
  | UnsupportedFormat
  | ExcelEmpty
  | ExcelEmptyOrMalformed
  | ParseFailed
  | TooFewColumns
  | TooFewRows
  | NoValidCourseData
  | LoadFailed py_error

text \<open>True division \<^verbatim>\<open>a / b\<close>: a zero divisor raises, also when \<^verbatim>\<open>a\<close> is NaN.\<close>

fun py_truediv :: "pyfloat \<Rightarrow> pyfloat \<Rightarrow> py_error + pyfloat" where
  "py_truediv (Fin x) (Fin y) = (if y = 0 then Inl ZeroDivisionError else Inr (Fin (x / y)))"
| "py_truediv NaN (Fin y) = (if y = 0 then Inl ZeroDivisionError else Inr NaN)"
| "py_truediv _ NaN = Inr NaN"

text \<open>\<^verbatim>\<open>int(x)\<close> truncates toward zero and raises ValueError on NaN.\<close>

fun py_int :: "pyfloat \<Rightarrow> py_error + int" where
  "py_int (Fin x) = Inr (if 0 \<le> x then \<lfloor>x\<rfloor> else \<lceil>x\<rceil>)"
| "py_int NaN = Inl (ValueError NanToInteger)"

text \<open>
  \<^verbatim>\<open>round(x, 1)\<close>: the nearest multiple of one tenth, a tie going to the even
  neighbour; NaN stays NaN. The program rounds the binary value, which at a decimal tie
  lies on one side of it (the grade 63.5 gives 1.3499999999999996 and then 1.3), so at a
  tie the neighbour that this model returns need not be the one the program returns.
\<close>

definition round_half_even :: "real \<Rightarrow> int" where
  "round_half_even x =
     (let f = \<lfloor>x\<rfloor>; d = x - of_int f
      in if d < 1 / 2 then f else if 1 / 2 < d then f + 1 else if even f then f else f + 1)"

definition round1 :: "real \<Rightarrow> real" where
  "round1 x = of_int (round_half_even (x * 10)) / 10"

fun py_round1 :: "pyfloat \<Rightarrow> pyfloat" where
  "py_round1 (Fin x) = Fin (round1 x)"
| "py_round1 NaN = NaN"

text \<open>The builtin \<^verbatim>\<open>sum\<close> starts from the integer 0 and adds from the left.\<close>

definition py_sum :: "pyfloat list \<Rightarrow> pyfloat" where
  "py_sum xs = foldl py_add (Fin 0) xs"

section \<open>The calculator: \<^verbatim>\<open>calculator.py\<close>\<close>

record calc_state =
  course_names :: "pystr list"
  course_grades :: "pyfloat list"
  course_credits :: "pyfloat list"
  course_count :: nat
  total_credits :: pyfloat

text \<open>\<^verbatim>\<open>GpaCalculator.__init__\<close>\<close>

definition init_state :: calc_state where
  "init_state = \<lparr>course_names = [], course_grades = [], course_credits = [],
     course_count = 0, total_credits = Fin 0\<rparr>"

text \<open>\<^verbatim>\<open>FAIL_GRADE_HANDLING["avg_score_value"]\<close> of \<^verbatim>\<open>config.py\<close>\<close>

definition avg_score_value :: pyfloat where
  "avg_score_value = Fin 40"

text \<open>The loop of \<^verbatim>\<open>calculate_average_score\<close> that builds \<^verbatim>\<open>adjusted_grades\<close>.\<close>

definition adjust_grade :: "pyfloat \<Rightarrow> pyfloat" where
  "adjust_grade grade = (if py_lt grade (Fin 60) then avg_score_value else grade)"

definition calculate_average_score :: "calc_state \<Rightarrow> py_error + pyfloat" where
  "calculate_average_score s =
     (if course_count s = 0 then Inl (ValueError NoDataAverage)
      else if py_eq (total_credits s) (Fin 0) then Inl (ValueError ZeroCreditsAverage)
      else
        let adjusted_grades = map adjust_grade (course_grades s);
            total_weighted_grade =
              py_sum (map (\<lambda>(grade, credit). py_mul grade credit)
                        (zip adjusted_grades (course_credits s)))
        in py_truediv total_weighted_grade (total_credits s))"

text \<open>
  Lines 163 to 165 of \<^verbatim>\<open>calculate_course_gpa\<close>:
  \<^verbatim>\<open>m = int(grade) // 10; n = grade / 10 - m; course_gpa = m + n - 5\<close>.
\<close>

definition raw_course_gpa :: "pyfloat \<Rightarrow> py_error + pyfloat" where
  "raw_course_gpa grade =
     (case py_int grade of
        Inl e \<Rightarrow> Inl e
      | Inr k \<Rightarrow>
          let m = k div 10 in
          (case py_truediv grade (Fin 10) of
             Inl e \<Rightarrow> Inl e
           | Inr q \<Rightarrow>
               let n = py_sub q (Fin (of_int m))
               in Inr (py_sub (py_add (Fin (of_int m)) n) (Fin 5))))"

text \<open>The body of the \<^verbatim>\<open>try\<close> block, for one course.\<close>

definition try_course_gpa :: "pyfloat \<Rightarrow> py_error + pyfloat" where
  "try_course_gpa grade =
     (if py_lt grade (Fin 60) then Inr (Fin 0)
      else
        (case raw_course_gpa grade of
           Inl e \<Rightarrow> Inl e
         | Inr course_gpa \<Rightarrow>
             Inr (py_round1 (if py_lt course_gpa (Fin 0) then Fin 0 else course_gpa))))"

text \<open>With the \<^verbatim>\<open>except Exception\<close> clause, which appends 0.0.\<close>

definition course_gpa_of :: "pyfloat \<Rightarrow> pyfloat" where
  "course_gpa_of grade = (case try_course_gpa grade of Inl e \<Rightarrow> Fin 0 | Inr v \<Rightarrow> v)"

definition calculate_course_gpa :: "calc_state \<Rightarrow> py_error + pyfloat list" where
  "calculate_course_gpa s =
     (if course_count s = 0 then Inl (ValueError NoDataCourseGpa)
      else Inr (map course_gpa_of (course_grades s)))"

text \<open>
  \<^verbatim>\<open>calculate_overall_gpa\<close>; its \<^verbatim>\<open>except\<close> clause raises the exception again.
\<close>

definition calculate_overall_gpa :: "calc_state \<Rightarrow> py_error + pyfloat" where
  "calculate_overall_gpa s =
     (if course_count s = 0 then Inl (ValueError NoDataOverall)
      else if py_eq (total_credits s) (Fin 0) then Inl (ValueError ZeroCreditsOverall)
      else
        (case calculate_course_gpa s of
           Inl e \<Rightarrow> Inl e
         | Inr course_gpa_list \<Rightarrow>
             let total_weighted_gpa =
                   py_sum (map (\<lambda>(gpa, credit). py_mul gpa credit)
                             (zip course_gpa_list (course_credits s)))
             in (case py_truediv total_weighted_gpa (total_credits s) of
                   Inl e \<Rightarrow> Inl e
                 | Inr overall_gpa \<Rightarrow>
                     Inr (py_round1
                            (if py_lt overall_gpa (Fin 0) then Fin 0 else overall_gpa)))))"



subsection \<open>Loading: \<^verbatim>\<open>load_data\<close>\<close>

text \<open>
  A raw grade or credit is a string, a number, or something else that \<^verbatim>\<open>float\<close> rejects
  with a TypeError (such as \<^verbatim>\<open>None\<close>). An empty spreadsheet cell arrives as the number
  NaN.
\<close>

datatype pyval = PStr pystr | PNum pyfloat | PNone

text \<open>
  The builtin \<^verbatim>\<open>float\<close>. What it reads from a string is a parameter of the model:
  \<^verbatim>\<open>None\<close> stands for the ValueError of a string that is not a number. An integer
  beyond the range of a double, on which \<^verbatim>\<open>float\<close> raises OverflowError, is not among
  the values of \<^typ>\<open>pyval\<close>.
\<close>

type_synonym float_parser = "pystr \<Rightarrow> pyfloat option"

fun py_float :: "float_parser \<Rightarrow> pyval \<Rightarrow> py_error + pyfloat" where
  "py_float parse (PStr s) =
     (case parse s of None \<Rightarrow> Inl (ValueError NotANumber) | Some v \<Rightarrow> Inr v)"
| "py_float parse (PNum x) = Inr x"
| "py_float parse PNone = Inl TypeError"

text \<open>
  A parser for the concrete examples: it reads a non-empty string of ASCII digits as the
  integer written, which is what \<^verbatim>\<open>float\<close> returns for it, and rejects everything else.
\<close>

fun digits_value :: "pystr \<Rightarrow> nat \<Rightarrow> nat option" where
  "digits_value [] acc = Some acc"
| "digits_value (c # cs) acc =
     (if 48 \<le> c \<and> c \<le> 57 then digits_value cs (10 * acc + (c - 48)) else None)"

definition digits_parser :: float_parser where
  "digits_parser s =
     (if s = [] then None
      else (case digits_value s 0 of None \<Rightarrow> None | Some n \<Rightarrow> Some (Fin (of_nat n))))"

text \<open>
  \<^verbatim>\<open>GRADE_MAPPING\<close> of \<^verbatim>\<open>config.py\<close>; the keys are the five labels, written as code
  points (U+4F18 U+79C0, U+826F U+597D, U+4E2D U+7B49, U+53CA U+683C,
  U+4E0D U+53CA U+683C).
\<close>

definition GRADE_MAPPING :: "pystr \<rightharpoonup> pyfloat" where
  "GRADE_MAPPING = map_of
     [([20248, 31168], Fin 95),
      ([33391, 22909], Fin 85),
      ([20013, 31561], Fin 75),
      ([21450, 26684], Fin 65),
      ([19981, 21450, 26684], Fin 0)]"

text \<open>One pass of the credit loop, lines 60 to 69.\<close>

definition convert_credit :: "float_parser \<Rightarrow> pyval \<Rightarrow> pyfloat" where
  "convert_credit parse credit =
     (case py_float parse credit of
        Inr credit_value \<Rightarrow> (if py_lt credit_value (Fin 0) then Fin 0 else credit_value)
      | Inl e \<Rightarrow> Fin 0)"

text \<open>\<^verbatim>\<open>isinstance(grade, str) and grade in GRADE_MAPPING\<close>, then the lookup.\<close>

fun grade_label :: "pyval \<Rightarrow> pyfloat option" where
  "grade_label (PStr s) = GRADE_MAPPING s"
| "grade_label _ = None"

text \<open>One pass of the grade loop, lines 80 to 98.\<close>

definition convert_grade :: "float_parser \<Rightarrow> pyval \<Rightarrow> pyfloat" where
  "convert_grade parse grade =
     (case grade_label grade of
        Some v \<Rightarrow> v
      | None \<Rightarrow>
          (case py_float parse grade of
             Inr grade_value \<Rightarrow>
               (if py_lt grade_value (Fin 0) then Fin 0
                else if py_gt grade_value (Fin 100) then Fin 100
                else grade_value)
           | Inl e \<Rightarrow> Fin 0))"

text \<open>
  \<^verbatim>\<open>load_data\<close>. The three arguments are lists by their type, so the TypeError of line
  45 has no branch. Both checks come before the first assignment: when the call raises,
  the calculator keeps the state it had.
\<close>

definition load_data ::
  "float_parser \<Rightarrow> calc_state \<Rightarrow> pystr list \<Rightarrow> pyval list \<Rightarrow> pyval list
     \<Rightarrow> py_error + calc_state" where
  "load_data parse s names grades credits =
     (if \<not> (length names = length grades \<and> length grades = length credits)
        then Inl (ValueError LengthMismatch)
      else if length names = 0 then Inl (ValueError EmptyCourseData)
      else
        let s1 = s\<lparr>course_names := names, course_count := length names\<rparr>;
            s2 = s1\<lparr>course_credits := map (convert_credit parse) credits\<rparr>;
            s3 = s2\<lparr>total_credits := py_sum (course_credits s2)\<rparr>
        in Inr (s3\<lparr>course_grades := map (convert_grade parse) grades\<rparr>))"

section \<open>The loader: \<^verbatim>\<open>data_loader.py\<close>\<close>

text \<open>
  The DataFrame that \<^verbatim>\<open>pandas.read_excel\<close> returns: its column count and its rows, each
  a list of cells. An empty cell is NaN. The first row of the sheet is not among the rows:
  \<^verbatim>\<open>read_excel\<close>, called with the path alone, takes the column labels from it.
\<close>

record dataframe =
  shape1 :: nat
  df_rows :: "pyval list list"

definition shape0 :: "dataframe \<Rightarrow> nat" where
  "shape0 df = length (df_rows df)"

definition df_empty :: "dataframe \<Rightarrow> bool" where
  "df_empty df = (shape0 df = 0 \<or> shape1 df = 0)"

definition iloc :: "dataframe \<Rightarrow> nat \<Rightarrow> nat \<Rightarrow> py_error + pyval" where
  "iloc df i c =
     (if i < length (df_rows df) \<and> c < length (df_rows df ! i)
      then Inr (df_rows df ! i ! c) else Inl IndexError)"

text \<open>\<^verbatim>\<open>EXCEL_CONFIG\<close> of \<^verbatim>\<open>config.py\<close>\<close>

definition start_row :: nat where "start_row = 1"
definition name_col :: nat where "name_col = 1"
definition grade_col :: nat where "grade_col = 2"
definition credit_col :: nat where "credit_col = 3"

definition required_cols :: nat where
  "required_cols = max (max name_col grade_col) credit_col + 1"

text \<open>\<^verbatim>\<open>pandas.notna\<close> on a cell\<close>

fun pd_notna :: "pyval \<Rightarrow> bool" where
  "pd_notna (PNum NaN) = False"
| "pd_notna PNone = False"
| "pd_notna _ = True"

text \<open>
  The builtin \<^verbatim>\<open>str\<close> on a cell. The text of a number is a parameter of the model.
\<close>

type_synonym float_repr = "pyfloat \<Rightarrow> pystr"

fun py_str :: "float_repr \<Rightarrow> pyval \<Rightarrow> pystr" where
  "py_str repr (PStr s) = s"
| "py_str repr (PNum x) = repr x"
| "py_str repr PNone = ascii ''None''"

text \<open>
  \<^verbatim>\<open>str.strip()\<close> removes the white space of Unicode from both ends: U+0009 to U+000D,
  U+001C to U+0020, U+0085, U+00A0, U+1680, U+2000 to U+200A, U+2028, U+2029, U+202F,
  U+205F and U+3000.
\<close>

definition is_space :: "nat \<Rightarrow> bool" where
  "is_space c =
     ((9 \<le> c \<and> c \<le> 13) \<or> (28 \<le> c \<and> c \<le> 32) \<or> c = 133 \<or> c = 160 \<or> c = 5760
      \<or> (8192 \<le> c \<and> c \<le> 8202) \<or> c = 8232 \<or> c = 8233 \<or> c = 8239 \<or> c = 8287
      \<or> c = 12288)"

definition py_strip :: "pystr \<Rightarrow> pystr" where
  "py_strip s = rev (dropWhile is_space (rev (dropWhile is_space s)))"

text \<open>
  The first loop, lines 77 to 84: the indices of the rows that have a course name. The
  cells of the grade and the credit are read for the two warnings.
\<close>

fun find_valid_rows :: "float_repr \<Rightarrow> dataframe \<Rightarrow> nat list \<Rightarrow> py_error + nat list" where
  "find_valid_rows repr df [] = Inr []"
| "find_valid_rows repr df (i # rest) =
     (case iloc df i name_col of
        Inl e \<Rightarrow> Inl e
      | Inr name \<Rightarrow>
          if pd_notna name \<and> py_strip (py_str repr name) \<noteq> [] then
            (case iloc df i grade_col of
               Inl e \<Rightarrow> Inl e
             | Inr grade \<Rightarrow>
                 (case iloc df i credit_col of
                    Inl e \<Rightarrow> Inl e
                  | Inr credit \<Rightarrow>
                      (case find_valid_rows repr df rest of
                         Inl e \<Rightarrow> Inl e
                       | Inr valid_rows \<Rightarrow> Inr (i # valid_rows))))
          else find_valid_rows repr df rest)"

text \<open>The second loop, lines 96 to 107: the three lists, one entry per valid row.\<close>

fun extract_rows ::
  "float_repr \<Rightarrow> dataframe \<Rightarrow> nat list
     \<Rightarrow> py_error + (pystr list \<times> pyval list \<times> pyval list)" where
  "extract_rows repr df [] = Inr ([], [], [])"
| "extract_rows repr df (i # rest) =
     (case iloc df i name_col of
        Inl e \<Rightarrow> Inl e
      | Inr name \<Rightarrow>
          (case iloc df i grade_col of
             Inl e \<Rightarrow> Inl e
           | Inr grade \<Rightarrow>
               (case iloc df i credit_col of
                  Inl e \<Rightarrow> Inl e
                | Inr credit \<Rightarrow>
                    (case extract_rows repr df rest of
                       Inl e \<Rightarrow> Inl e
                     | Inr (names, grades, credits) \<Rightarrow>
                         Inr (py_strip (py_str repr name) # names,
                              grade # grades,
                              credit # credits)))))"

text \<open>The body of the \<^verbatim>\<open>try\<close> block, from the DataFrame on.\<close>

definition load_frame ::
  "float_repr \<Rightarrow> dataframe \<Rightarrow> py_error + (nat \<times> pystr list \<times> pyval list \<times> pyval list)" where
  "load_frame repr df =
     (if df_empty df then Inl (ValueError ExcelEmpty)
      else if shape1 df < required_cols then Inl (ValueError TooFewColumns)
      else if shape0 df \<le> start_row then Inl (ValueError TooFewRows)
      else
        (case find_valid_rows repr df [start_row ..< shape0 df] of
           Inl e \<Rightarrow> Inl e
         | Inr valid_rows \<Rightarrow>
             if valid_rows = [] then Inl (ValueError NoValidCourseData)
             else
               (case extract_rows repr df valid_rows of
                  Inl e \<Rightarrow> Inl e
                | Inr (names, grades, credits) \<Rightarrow>
                    Inr (length names, names, grades, credits))))"

text \<open>
  What \<^verbatim>\<open>pandas.read_excel\<close> does with the file, and what the file system says about
  the path. \<^verbatim>\<open>file_ext\<close> is \<^verbatim>\<open>os.path.splitext(file_path)[1].lower()\<close>.
\<close>

datatype read_result = Frame dataframe | EmptyDataError | ParserError | OtherReadError

record excel_file =
  file_exists :: bool
  file_ext :: pystr
  read_excel :: read_result

text \<open>
  \<^verbatim>\<open>load_from_excel\<close>. The path is a string by its type. The last \<^verbatim>\<open>except\<close> clause
  turns every exception of the \<^verbatim>\<open>try\<close> block into a ValueError that quotes it.
\<close>

definition load_from_excel ::
  "float_repr \<Rightarrow> excel_file
     \<Rightarrow> py_error + (nat \<times> pystr list \<times> pyval list \<times> pyval list)" where
  "load_from_excel repr f =
     (if \<not> file_exists f then Inl FileNotFoundError
      else if file_ext f \<notin> set [ascii ''.xlsx'', ascii ''.xls'']
        then Inl (ValueError UnsupportedFormat)
      else
        (case read_excel f of
           EmptyDataError \<Rightarrow> Inl (ValueError ExcelEmptyOrMalformed)
         | ParserError \<Rightarrow> Inl (ValueError ParseFailed)
         | OtherReadError \<Rightarrow> Inl (ValueError (LoadFailed OtherException))
         | Frame df \<Rightarrow>
             (case load_frame repr df of
                Inl e \<Rightarrow> Inl (ValueError (LoadFailed e))
              | Inr r \<Rightarrow> Inr r)))"

section \<open>The history store: \<^verbatim>\<open>persistence.py\<close>\<close>

text \<open>
  The file \<^verbatim>\<open>history.json\<close>: absent, present but not readable as JSON, or holding the
  list of records. \<^verbatim>\<open>writable\<close> says whether opening it for writing succeeds.
\<close>

datatype 'r history_file = Absent | Unreadable | Saved "'r list"

record 'r storage =
  history_file :: "'r history_file"
  writable :: bool

text \<open>\<^verbatim>\<open>load_history\<close>: every failure gives the empty list.\<close>

definition load_history :: "'r storage \<Rightarrow> 'r list" where
  "load_history st = (case history_file st of Saved h \<Rightarrow> h | _ \<Rightarrow> [])"

text \<open>\<^verbatim>\<open>del history[index]\<close> for an index that is in range\<close>

definition py_del :: "'a list \<Rightarrow> nat \<Rightarrow> 'a list" where
  "py_del xs i = take i xs @ drop (Suc i) xs"

text \<open>
  \<^verbatim>\<open>delete_record\<close>: the value returned and the store afterwards. The index is an
  integer by its type.
\<close>

definition delete_record :: "'r storage \<Rightarrow> int \<Rightarrow> bool \<times> 'r storage" where
  "delete_record st index =
     (let history = load_history st in
      if history = [] then (False, st)
      else if 0 \<le> index \<and> index < int (length history) then
        (if writable st
         then (True, st\<lparr>history_file := Saved (py_del history (nat index))\<rparr>)
         else (False, st))
      else (False, st))"

section \<open>The formulas as the specification words them\<close>

text \<open>
  The grade point of the specification:
  \<^verbatim>\<open>gpa = floor(grade/10) + (grade/10 - floor(grade/10)) - 5\<close>, zero below 60, rounded to
  one decimal place.
\<close>

definition spec_gpa_formula :: "real \<Rightarrow> real" where
  "spec_gpa_formula g = of_int \<lfloor>g / 10\<rfloor> + (g / 10 - of_int \<lfloor>g / 10\<rfloor>) - 5"

definition spec_course_gpa :: "real \<Rightarrow> real" where
  "spec_course_gpa g = (if g < 60 then 0 else round1 (spec_gpa_formula g))"

text \<open>
  Rounding to one decimal place with the tie left open: r is a multiple of one tenth and
  no other multiple is nearer to x.
\<close>

definition nearest_tenth :: "real \<Rightarrow> real \<Rightarrow> bool" where
  "nearest_tenth x r = (of_int \<lfloor>r * 10\<rfloor> = r * 10 \<and> \<bar>r - x\<bar> \<le> 1 / 20)"

text \<open>
  The grade point of one course as a relation between the stored grade and the value
  returned: 0.0 for a grade below 60 and for NaN, and from 60 on the formula rounded to
  one decimal place, either neighbour at a tie.
\<close>

fun spec_grade_point :: "pyfloat \<Rightarrow> pyfloat \<Rightarrow> bool" where
  "spec_grade_point NaN r = (r = Fin 0)"
| "spec_grade_point (Fin g) NaN = False"
| "spec_grade_point (Fin g) (Fin p) =
     (if g < 60 then p = 0 else nearest_tenth (spec_gpa_formula g) p)"

text \<open>The adjusted grade of the specification: the placeholder 40 below 60.\<close>

definition spec_adjusted_grade :: "real \<Rightarrow> real" where
  "spec_adjusted_grade g = (if g < 60 then 40 else g)"

text \<open>
  A valid row of the specification: the cell of the name column is not empty after
  trimming white space.
\<close>

definition valid_row :: "float_repr \<Rightarrow> pyval list \<Rightarrow> bool" where
  "valid_row repr row =
     (pd_notna (row ! name_col) \<and> py_strip (py_str repr (row ! name_col)) \<noteq> [])"

section \<open>Facts about the arithmetic\<close>

lemma py_truediv_nonzero:
  "\<not> py_eq d (Fin 0) \<Longrightarrow> \<exists>v. py_truediv n d = Inr v"
  by (cases n; cases d) auto

lemma floor_div_10: "\<lfloor>g\<rfloor> div 10 = \<lfloor>g / 10\<rfloor>" for g :: real
  using floor_divide_real_eq_div [of 10 g] by simp

lemma spec_gpa_formula_linear: "spec_gpa_formula g = g / 10 - 5"
  by (simp add: spec_gpa_formula_def)

text \<open>
  For a grade that is not negative, \<^verbatim>\<open>int(grade) // 10\<close> is the floor of a tenth of the
  grade, so the three lines of the program compute the formula of the specification.
\<close>

lemma raw_course_gpa_Fin:
  "0 \<le> g \<Longrightarrow> raw_course_gpa (Fin g) = Inr (Fin (spec_gpa_formula g))"
  by (simp add: raw_course_gpa_def spec_gpa_formula_def Let_def floor_div_10)

text \<open>From 60 on the value is at least 1, so the clamp of a negative value is not taken.\<close>

lemma try_course_gpa_pass:
  assumes "60 \<le> g"
  shows "try_course_gpa (Fin g) = Inr (Fin (round1 (spec_gpa_formula g)))"
proof -
  have "0 \<le> g" using assms by simp
  then have raw: "raw_course_gpa (Fin g) = Inr (Fin (spec_gpa_formula g))"
    by (rule raw_course_gpa_Fin)
  have "\<not> spec_gpa_formula g < 0"
    using assms by (simp add: spec_gpa_formula_linear)
  with raw assms show ?thesis
    by (simp add: try_course_gpa_def)
qed

lemma course_gpa_of_Fin: "course_gpa_of (Fin g) = Fin (spec_course_gpa g)"
proof (cases "g < 60")
  case True
  then show ?thesis
    by (simp add: course_gpa_of_def try_course_gpa_def spec_course_gpa_def)
next
  case False
  then have "60 \<le> g" by simp
  then show ?thesis
    using False by (simp add: course_gpa_of_def try_course_gpa_pass spec_course_gpa_def)
qed

text \<open>On numbers the sum of the program is the sum of the list.\<close>

lemma py_sum_Fin_aux: "foldl py_add (Fin a) (map Fin xs) = Fin (a + sum_list xs)"
  by (induction xs arbitrary: a) (simp_all add: add.assoc)

lemma py_sum_Fin: "py_sum (map Fin xs) = Fin (sum_list xs)"
  by (simp add: py_sum_def py_sum_Fin_aux)

lemma adjust_grade_Fin: "adjust_grade (Fin g) = Fin (spec_adjusted_grade g)"
  by (simp add: adjust_grade_def spec_adjusted_grade_def avg_score_value_def)

lemma weighted_Fin:
  "length gs = length cs \<Longrightarrow>
   map (\<lambda>(grade, credit). py_mul grade credit) (zip (map Fin gs) (map Fin cs))
     = map Fin (map (\<lambda>(g, c). g * c) (zip gs cs))"
  by (induction gs cs rule: list_induct2) simp_all

lemma sum_list_zip_nth:
  fixes f :: "real \<Rightarrow> real"
  assumes len: "length gs = length cs"
  shows "sum_list (map (\<lambda>(g, c). f g * c) (zip gs cs)) = (\<Sum>i<length gs. f (gs ! i) * cs ! i)"
proof -
  have "sum_list (map (\<lambda>(g, c). f g * c) (zip gs cs))
      = (\<Sum>i = 0..<length (zip gs cs). (map (\<lambda>(g, c). f g * c) (zip gs cs)) ! i)"
    by (simp add: sum_list_sum_nth)
  also have "\<dots> = (\<Sum>i = 0..<length gs. f (gs ! i) * cs ! i)"
    using len by (intro sum.cong) simp_all
  finally show ?thesis by (simp add: atLeast0LessThan)
qed

section \<open>Errors of the three metrics\<close>

text \<open>
  C1, as the program has it. \<^verbatim>\<open>calculate_average_score\<close> and
  \<^verbatim>\<open>calculate_overall_gpa\<close> raise a ValueError exactly when no course is loaded
  (\<^verbatim>\<open>course_count == 0\<close>) or \<^verbatim>\<open>total_credits == 0\<close>, and return a value in every other
  state. \<^verbatim>\<open>calculate_course_gpa\<close> raises a ValueError exactly when no course is loaded
  and returns a list in every other state, also when \<^verbatim>\<open>total_credits == 0\<close>.
\<close>

theorem metric_errors:
  "(case calculate_average_score s of
      Inl e \<Rightarrow> (\<exists>m. e = ValueError m)
                 \<and> (course_count s = 0 \<or> py_eq (total_credits s) (Fin 0))
    | Inr v \<Rightarrow> \<not> (course_count s = 0 \<or> py_eq (total_credits s) (Fin 0)))
   \<and> (case calculate_overall_gpa s of
      Inl e \<Rightarrow> (\<exists>m. e = ValueError m)
                 \<and> (course_count s = 0 \<or> py_eq (total_credits s) (Fin 0))
    | Inr v \<Rightarrow> \<not> (course_count s = 0 \<or> py_eq (total_credits s) (Fin 0)))
   \<and> (case calculate_course_gpa s of
      Inl e \<Rightarrow> (\<exists>m. e = ValueError m) \<and> course_count s = 0
    | Inr v \<Rightarrow> course_count s \<noteq> 0)"
proof -
  let ?bad = "course_count s = 0 \<or> py_eq (total_credits s) (Fin 0)"
  have a: "case calculate_average_score s of
      Inl e \<Rightarrow> (\<exists>m. e = ValueError m) \<and> ?bad | Inr v \<Rightarrow> \<not> ?bad"
  proof (cases ?bad)
    case True
    then show ?thesis by (auto simp: calculate_average_score_def)
  next
    case False
    then obtain v where
      "py_truediv
         (py_sum (map (\<lambda>(grade, credit). py_mul grade credit)
                    (zip (map adjust_grade (course_grades s)) (course_credits s))))
         (total_credits s) = Inr v"
      using py_truediv_nonzero by blast
    with False show ?thesis by (simp add: calculate_average_score_def Let_def)
  qed
  have c: "case calculate_course_gpa s of
      Inl e \<Rightarrow> (\<exists>m. e = ValueError m) \<and> course_count s = 0 | Inr v \<Rightarrow> course_count s \<noteq> 0"
    by (simp add: calculate_course_gpa_def)
  have b: "case calculate_overall_gpa s of
      Inl e \<Rightarrow> (\<exists>m. e = ValueError m) \<and> ?bad | Inr v \<Rightarrow> \<not> ?bad"
  proof (cases ?bad)
    case True
    then show ?thesis by (auto simp: calculate_overall_gpa_def)
  next
    case False
    then obtain v where
      "py_truediv
         (py_sum (map (\<lambda>(gpa, credit). py_mul gpa credit)
                    (zip (map course_gpa_of (course_grades s)) (course_credits s))))
         (total_credits s) = Inr v"
      using py_truediv_nonzero by blast
    with False show ?thesis
      by (simp add: calculate_overall_gpa_def calculate_course_gpa_def Let_def)
  qed
  from a b c show ?thesis by simp
qed

text \<open>
  Against C1 as it is worded: one course of grade 95 and credit 0 loads, the total of the
  credits is 0, and \<^verbatim>\<open>calculate_course_gpa\<close> returns the list [4.5] where the claim
  has it fail, while the other two metrics do fail.
\<close>

theorem course_gpa_returns_with_zero_credits:
  "load_data digits_parser init_state [ascii ''Math''] [PNum (Fin 95)] [PNum (Fin 0)]
     = Inr \<lparr>course_names = [ascii ''Math''], course_grades = [Fin 95],
            course_credits = [Fin 0], course_count = 1, total_credits = Fin 0\<rparr>
   \<and> calculate_course_gpa
       \<lparr>course_names = [ascii ''Math''], course_grades = [Fin 95],
        course_credits = [Fin 0], course_count = 1, total_credits = Fin 0\<rparr>
     = Inr [Fin (45 / 10)]
   \<and> calculate_average_score
       \<lparr>course_names = [ascii ''Math''], course_grades = [Fin 95],
        course_credits = [Fin 0], course_count = 1, total_credits = Fin 0\<rparr>
     = Inl (ValueError ZeroCreditsAverage)
   \<and> calculate_overall_gpa
       \<lparr>course_names = [ascii ''Math''], course_grades = [Fin 95],
        course_credits = [Fin 0], course_count = 1, total_credits = Fin 0\<rparr>
     = Inl (ValueError ZeroCreditsOverall)"
  by (simp add: load_data_def init_state_def convert_credit_def convert_grade_def
      GRADE_MAPPING_def py_sum_def Let_def calculate_course_gpa_def course_gpa_of_Fin
      spec_course_gpa_def spec_gpa_formula_linear round1_def round_half_even_def
      calculate_average_score_def calculate_overall_gpa_def)

section \<open>The grade point of a course\<close>

text \<open>
  C2, as the program has it. For every grade g with 60 \<le> g \<le> 100 the value that the
  three lines of \<^verbatim>\<open>calculate_course_gpa\<close> compute, and the formula
  floor(g/10) + (g/10 - floor(g/10)) - 5 of the specification, are both equal to the
  linear scale g/10 - 5: the curve has no notch at the decades.
\<close>

theorem grade_point_formula_is_linear:
  "60 \<le> g \<Longrightarrow> g \<le> 100 \<Longrightarrow>
     raw_course_gpa (Fin g) = Inr (Fin (g / 10 - 5)) \<and> spec_gpa_formula g = g / 10 - 5"
  by (simp add: raw_course_gpa_Fin spec_gpa_formula_linear)

theorem grade_point_formula_is_linear_witness:
  "(60::real) \<le> 70 \<and> (70::real) \<le> 100
   \<and> raw_course_gpa (Fin 70) = Inr (Fin (70 / 10 - 5))
   \<and> spec_gpa_formula 70 = 70 / 10 - 5"
  using grade_point_formula_is_linear [of 70] by simp

text \<open>
  Against C2 as it is worded: at the grade 75, in the middle of a decade, the program
  computes 2.5, which is 75/10 - 5, and at the grades 65, 70, 75 and 80 it computes 1.5,
  2.0, 2.5 and 3.0, half a point for every five points across the decade as within it.
\<close>

theorem grade_point_equals_linear_scale_at_75:
  "raw_course_gpa (Fin 75) = Inr (Fin (75 / 10 - 5))
   \<and> raw_course_gpa (Fin 65) = Inr (Fin (15 / 10))
   \<and> raw_course_gpa (Fin 70) = Inr (Fin 2)
   \<and> raw_course_gpa (Fin 75) = Inr (Fin (25 / 10))
   \<and> raw_course_gpa (Fin 80) = Inr (Fin 3)"
  by (simp add: raw_course_gpa_def Let_def)

text \<open>
  What \<^const>\<open>round1\<close> returns is a nearest multiple of one tenth, and a NaN grade, on
  which \<^verbatim>\<open>int(grade)\<close> raises, gets 0.0 from the \<^verbatim>\<open>except\<close> clause.
\<close>

lemma round_half_even_near: "\<bar>of_int (round_half_even y) - y\<bar> \<le> 1 / 2"
proof -
  have "of_int \<lfloor>y\<rfloor> \<le> y" and "y < of_int \<lfloor>y\<rfloor> + 1"
    by linarith+
  then show ?thesis
    by (auto simp: round_half_even_def Let_def)
qed

lemma round1_nearest_tenth: "nearest_tenth x (round1 x)"
proof -
  have "\<bar>of_int (round_half_even (x * 10)) - x * 10\<bar> \<le> 1 / 2"
    by (rule round_half_even_near)
  then have "\<bar>round1 x - x\<bar> \<le> 1 / 20"
    by (simp add: round1_def field_simps abs_le_iff)
  then show ?thesis
    by (simp add: nearest_tenth_def round1_def)
qed

lemma course_gpa_of_grade_point: "spec_grade_point grade (course_gpa_of grade)"
proof (cases grade)
  case NaN
  then show ?thesis
    by (simp add: course_gpa_of_def try_course_gpa_def raw_course_gpa_def)
next
  case (Fin g)
  then show ?thesis
    by (simp add: course_gpa_of_Fin spec_course_gpa_def round1_nearest_tenth)
qed

text \<open>
  C4, as the program has it. In every state with at least one course,
  \<^verbatim>\<open>calculate_course_gpa\<close> returns one grade point per stored grade: 0.0 for a grade
  below 60 and for a grade that is NaN, and for a grade g from 60 on a multiple of one
  tenth that is nearest to floor(g/10) + (g/10 - floor(g/10)) - 5, either neighbour at a
  tie. The grade 60 gives 1.0, the grade 100 gives 5.0 and the grade 59.9 gives 0.0.
\<close>

theorem calculate_course_gpa_nearest_tenth:
  assumes "course_count s \<noteq> 0"
  shows "(\<exists>rs. calculate_course_gpa s = Inr rs
            \<and> list_all2 spec_grade_point (course_grades s) rs)
    \<and> course_gpa_of (Fin 60) = Fin 1
    \<and> course_gpa_of (Fin 100) = Fin 5
    \<and> course_gpa_of (Fin (599 / 10)) = Fin 0"
proof -
  have "list_all2 spec_grade_point (course_grades s) (map course_gpa_of (course_grades s))"
    by (simp add: list_all2_conv_all_nth course_gpa_of_grade_point)
  then have "\<exists>rs. calculate_course_gpa s = Inr rs
      \<and> list_all2 spec_grade_point (course_grades s) rs"
    using assms by (simp add: calculate_course_gpa_def)
  moreover have "course_gpa_of (Fin 60) = Fin 1"
    by (simp add: course_gpa_of_Fin spec_course_gpa_def spec_gpa_formula_linear
        round1_def round_half_even_def)
  moreover have "course_gpa_of (Fin 100) = Fin 5"
    by (simp add: course_gpa_of_Fin spec_course_gpa_def spec_gpa_formula_linear
        round1_def round_half_even_def)
  moreover have "course_gpa_of (Fin (599 / 10)) = Fin 0"
    by (simp add: course_gpa_of_Fin spec_course_gpa_def)
  ultimately show ?thesis by simp
qed

theorem calculate_course_gpa_nearest_tenth_witness:
  "course_count
       \<lparr>course_names = [ascii ''A'', ascii ''B'', ascii ''C'', ascii ''D'', ascii ''E''],
        course_grades = [Fin 60, Fin 100, Fin (599 / 10), Fin (873 / 10), NaN],
        course_credits = [Fin 2, Fin 3, Fin 1, Fin 2, Fin 1],
        course_count = 5, total_credits = Fin 9\<rparr> \<noteq> 0
   \<and> calculate_course_gpa
       \<lparr>course_names = [ascii ''A'', ascii ''B'', ascii ''C'', ascii ''D'', ascii ''E''],
        course_grades = [Fin 60, Fin 100, Fin (599 / 10), Fin (873 / 10), NaN],
        course_credits = [Fin 2, Fin 3, Fin 1, Fin 2, Fin 1],
        course_count = 5, total_credits = Fin 9\<rparr>
     = Inr [Fin 1, Fin 5, Fin 0, Fin (37 / 10), Fin 0]
   \<and> list_all2 spec_grade_point
        [Fin 60, Fin 100, Fin (599 / 10), Fin (873 / 10), NaN]
        [Fin 1, Fin 5, Fin 0, Fin (37 / 10), Fin 0]
   \<and> spec_grade_point (Fin (635 / 10)) (Fin (13 / 10))
   \<and> spec_grade_point (Fin (635 / 10)) (Fin (14 / 10))
   \<and> \<not> spec_grade_point (Fin (635 / 10)) (Fin (12 / 10))
   \<and> \<not> spec_grade_point (Fin (873 / 10)) (Fin (38 / 10))"
  using calculate_course_gpa_nearest_tenth
    [of "\<lparr>course_names = [ascii ''A'', ascii ''B'', ascii ''C'', ascii ''D'', ascii ''E''],
         course_grades = [Fin 60, Fin 100, Fin (599 / 10), Fin (873 / 10), NaN],
         course_credits = [Fin 2, Fin 3, Fin 1, Fin 2, Fin 1],
         course_count = 5, total_credits = Fin 9\<rparr>"]
  by (simp add: calculate_course_gpa_def course_gpa_of_def try_course_gpa_def
      raw_course_gpa_def Let_def round1_def round_half_even_def nearest_tenth_def
      spec_gpa_formula_linear)

text \<open>
  Against C4 as it is worded: a course whose grade is NaN loads; the grade is not below
  60 and the three lines of the formula raise on it, and \<^verbatim>\<open>calculate_course_gpa\<close>
  returns 0.0 for it, which is not the formula rounded.
\<close>

theorem nan_grade_point_is_zero:
  "load_data digits_parser init_state [ascii ''PE''] [PNum NaN] [PNum (Fin 2)]
     = Inr \<lparr>course_names = [ascii ''PE''], course_grades = [NaN],
            course_credits = [Fin 2], course_count = 1, total_credits = Fin 2\<rparr>
   \<and> \<not> py_lt NaN (Fin 60)
   \<and> raw_course_gpa NaN = Inl (ValueError NanToInteger)
   \<and> calculate_course_gpa
       \<lparr>course_names = [ascii ''PE''], course_grades = [NaN],
        course_credits = [Fin 2], course_count = 1, total_credits = Fin 2\<rparr>
     = Inr [Fin 0]"
  by (simp add: load_data_def init_state_def convert_credit_def convert_grade_def
      py_sum_def Let_def calculate_course_gpa_def course_gpa_of_def try_course_gpa_def
      raw_course_gpa_def)

section \<open>The average score\<close>

text \<open>
  C5. In a state with at least one course, whose stored grades and credits are the
  numbers gs and cs, one credit per grade, and whose \<^verbatim>\<open>total_credits\<close> is a number
  t > 0, \<^verbatim>\<open>calculate_average_score\<close> returns the sum of adjusted_grade[i] * credit[i]
  divided by t, where the adjusted grade is 40 for a grade below 60 and the grade itself
  otherwise.
\<close>

theorem calculate_average_score_spec:
  assumes "course_count s \<noteq> 0"
    and "course_grades s = map Fin gs" and "course_credits s = map Fin cs"
    and "length gs = length cs"
    and "total_credits s = Fin t" and "0 < t"
  shows "calculate_average_score s
    = Inr (Fin ((\<Sum>i<length gs. spec_adjusted_grade (gs ! i) * cs ! i) / t))"
proof -
  have adj: "map adjust_grade (map Fin gs) = map Fin (map spec_adjusted_grade gs)"
    by (simp add: adjust_grade_Fin)
  have len: "length (map spec_adjusted_grade gs) = length cs"
    using assms(4) by simp
  have "py_sum (map (\<lambda>(grade, credit). py_mul grade credit)
          (zip (map adjust_grade (course_grades s)) (course_credits s)))
      = Fin (sum_list (map (\<lambda>(g, c). g * c) (zip (map spec_adjusted_grade gs) cs)))"
    unfolding assms(2,3) adj weighted_Fin [OF len] py_sum_Fin ..
  also have "sum_list (map (\<lambda>(g, c). g * c) (zip (map spec_adjusted_grade gs) cs))
      = sum_list (map (\<lambda>(g, c). spec_adjusted_grade g * c) (zip gs cs))"
    by (simp add: zip_map1 case_prod_unfold comp_def)
  also have "\<dots> = (\<Sum>i<length gs. spec_adjusted_grade (gs ! i) * cs ! i)"
    using assms(4) by (rule sum_list_zip_nth)
  finally show ?thesis
    using assms(1,5,6) by (simp add: calculate_average_score_def Let_def)
qed

theorem calculate_average_score_spec_witness:
  "course_count
       \<lparr>course_names = [ascii ''A'', ascii ''B''], course_grades = map Fin [80, 50],
        course_credits = map Fin [3, 1], course_count = 2, total_credits = Fin 4\<rparr> \<noteq> 0
   \<and> length [80, 50 :: real] = length [3, 1 :: real]
   \<and> (0 :: real) < 4
   \<and> calculate_average_score
       \<lparr>course_names = [ascii ''A'', ascii ''B''], course_grades = map Fin [80, 50],
        course_credits = map Fin [3, 1], course_count = 2, total_credits = Fin 4\<rparr>
     = Inr (Fin ((80 * 3 + 40 * 1) / 4))"
  using calculate_average_score_spec
    [of "\<lparr>course_names = [ascii ''A'', ascii ''B''], course_grades = map Fin [80, 50],
         course_credits = map Fin [3, 1], course_count = 2, total_credits = Fin 4\<rparr>"
        "[80, 50]" "[3, 1]" 4]
  by (simp add: spec_adjusted_grade_def lessThan_Suc numeral_2_eq_2)

text \<open>
  C3, as the program has it. The courses Math (95, 4 credits), PE (the failing label,
  2 credits) and English (72, 3 credits) load with the grades [95, 0, 72] and
  \<^verbatim>\<open>total_credits\<close> 9, and \<^verbatim>\<open>calculate_average_score\<close> then returns
  (95*4 + 40*2 + 72*3)/9, which is 676/9, 75.11 to two decimal places.
\<close>

theorem example_average_is_676_ninths:
  "load_data digits_parser init_state
     [ascii ''Math'', ascii ''PE'', ascii ''English'']
     [PNum (Fin 95), PStr [19981, 21450, 26684], PNum (Fin 72)]
     [PNum (Fin 4), PNum (Fin 2), PNum (Fin 3)]
   = Inr \<lparr>course_names = [ascii ''Math'', ascii ''PE'', ascii ''English''],
          course_grades = [Fin 95, Fin 0, Fin 72],
          course_credits = [Fin 4, Fin 2, Fin 3],
          course_count = 3, total_credits = Fin 9\<rparr>
   \<and> calculate_average_score
       \<lparr>course_names = [ascii ''Math'', ascii ''PE'', ascii ''English''],
        course_grades = [Fin 95, Fin 0, Fin 72],
        course_credits = [Fin 4, Fin 2, Fin 3],
        course_count = 3, total_credits = Fin 9\<rparr>
     = Inr (Fin ((95 * 4 + 40 * 2 + 72 * 3) / 9))
   \<and> ((95 * 4 + 40 * 2 + 72 * 3) / 9 :: real) = 676 / 9
   \<and> (7511 / 100 :: real) < 676 / 9 \<and> (676 / 9 :: real) < 7512 / 100"
  by (simp add: load_data_def init_state_def convert_credit_def convert_grade_def
      GRADE_MAPPING_def py_sum_def Let_def calculate_average_score_def adjust_grade_def
      avg_score_value_def)

text \<open>
  Against C3 as it is worded: on the state that these courses load, the average score is
  not 68.44; it is more than 75.
\<close>

theorem example_average_is_not_68_44:
  "calculate_average_score
       \<lparr>course_names = [ascii ''Math'', ascii ''PE'', ascii ''English''],
        course_grades = [Fin 95, Fin 0, Fin 72],
        course_credits = [Fin 4, Fin 2, Fin 3],
        course_count = 3, total_credits = Fin 9\<rparr>
     \<noteq> Inr (Fin (6844 / 100))
   \<and> calculate_average_score
       \<lparr>course_names = [ascii ''Math'', ascii ''PE'', ascii ''English''],
        course_grades = [Fin 95, Fin 0, Fin 72],
        course_credits = [Fin 4, Fin 2, Fin 3],
        course_count = 3, total_credits = Fin 9\<rparr>
     = Inr (Fin (676 / 9))
   \<and> (75 :: real) < 676 / 9"
  by (simp add: calculate_average_score_def adjust_grade_def
      avg_score_value_def py_sum_def Let_def)

section \<open>The loader\<close>

text \<open>
  In a DataFrame whose rows all have \<^verbatim>\<open>shape[1]\<close> cells, every read of the two loops
  is in range.
\<close>

lemma iloc_rect:
  assumes "list_all (\<lambda>row. length row = shape1 df) (df_rows df)"
    and "i < length (df_rows df)" and "c < shape1 df"
  shows "iloc df i c = Inr (df_rows df ! i ! c)"
proof -
  have "length (df_rows df ! i) = shape1 df"
    using assms(1,2) by (simp add: list_all_length)
  with assms(2,3) show ?thesis by (simp add: iloc_def)
qed

lemma cols_in_range:
  "required_cols \<le> n \<Longrightarrow> name_col < n \<and> grade_col < n \<and> credit_col < n"
  by (simp add: required_cols_def name_col_def grade_col_def credit_col_def)

lemma find_valid_rows_filter:
  assumes rect: "list_all (\<lambda>row. length row = shape1 df) (df_rows df)"
    and cols: "required_cols \<le> shape1 df"
  shows "list_all (\<lambda>i. i < length (df_rows df)) idx \<Longrightarrow>
    find_valid_rows repr df idx = Inr (filter (\<lambda>i. valid_row repr (df_rows df ! i)) idx)"
proof (induction idx)
  case Nil
  show ?case by simp
next
  case (Cons i rest)
  from Cons.prems have i: "i < length (df_rows df)"
    and rest: "list_all (\<lambda>i. i < length (df_rows df)) rest"
    by simp_all
  note c = cols_in_range [OF cols]
  have n: "iloc df i name_col = Inr (df_rows df ! i ! name_col)"
    and g: "iloc df i grade_col = Inr (df_rows df ! i ! grade_col)"
    and k: "iloc df i credit_col = Inr (df_rows df ! i ! credit_col)"
    using c i by (simp_all add: iloc_rect [OF rect])
  show ?case
    by (simp add: n g k Cons.IH [OF rest] valid_row_def)
qed

lemma extract_rows_map:
  assumes rect: "list_all (\<lambda>row. length row = shape1 df) (df_rows df)"
    and cols: "required_cols \<le> shape1 df"
  shows "list_all (\<lambda>i. i < length (df_rows df)) idx \<Longrightarrow>
    extract_rows repr df idx =
      Inr (map (\<lambda>i. py_strip (py_str repr (df_rows df ! i ! name_col))) idx,
           map (\<lambda>i. df_rows df ! i ! grade_col) idx,
           map (\<lambda>i. df_rows df ! i ! credit_col) idx)"
proof (induction idx)
  case Nil
  show ?case by simp
next
  case (Cons i rest)
  from Cons.prems have i: "i < length (df_rows df)"
    and rest: "list_all (\<lambda>i. i < length (df_rows df)) rest"
    by simp_all
  note c = cols_in_range [OF cols]
  have n: "iloc df i name_col = Inr (df_rows df ! i ! name_col)"
    and g: "iloc df i grade_col = Inr (df_rows df ! i ! grade_col)"
    and k: "iloc df i credit_col = Inr (df_rows df ! i ! credit_col)"
    using c i by (simp_all add: iloc_rect [OF rect])
  show ?case
    by (simp add: n g k Cons.IH [OF rest])
qed

lemma map_nth_upt_drop: "map ((!) xs) [k ..< length xs] = drop k xs"
  by (simp add: list_eq_iff_nth_eq)

lemma filter_rows_by_index:
  "map ((!) xs) (filter (\<lambda>i. P (xs ! i)) [k ..< length xs]) = filter P (drop k xs)"
proof -
  have "filter P (map ((!) xs) [k ..< length xs])
      = map ((!) xs) (filter (P \<circ> (!) xs) [k ..< length xs])"
    by (rule filter_map)
  then show ?thesis by (simp add: map_nth_upt_drop comp_def)
qed

lemma load_frame_valid_rows:
  assumes rect: "list_all (\<lambda>row. length row = shape1 df) (df_rows df)"
    and cols: "required_cols \<le> shape1 df"
    and rows: "start_row < shape0 df"
  shows "load_frame repr df =
     (let valid = filter (valid_row repr) (drop start_row (df_rows df)) in
      if valid = [] then Inl (ValueError NoValidCourseData)
      else Inr (length valid,
                map (\<lambda>row. py_strip (py_str repr (row ! name_col))) valid,
                map (\<lambda>row. row ! grade_col) valid,
                map (\<lambda>row. row ! credit_col) valid))"
proof -
  let ?rows = "df_rows df"
  let ?idx = "filter (\<lambda>i. valid_row repr (?rows ! i)) [start_row ..< length ?rows]"
  let ?valid = "filter (valid_row repr) (drop start_row ?rows)"
  have in_range: "list_all (\<lambda>i. i < length ?rows) [start_row ..< length ?rows]"
    by (simp add: list_all_iff)
  have idx_range: "list_all (\<lambda>i. i < length ?rows) ?idx"
    by (simp add: list_all_iff)
  have scan: "find_valid_rows repr df [start_row ..< shape0 df] = Inr ?idx"
    unfolding shape0_def by (rule find_valid_rows_filter [OF rect cols in_range])
  have ext: "extract_rows repr df ?idx =
      Inr (map (\<lambda>i. py_strip (py_str repr (?rows ! i ! name_col))) ?idx,
           map (\<lambda>i. ?rows ! i ! grade_col) ?idx,
           map (\<lambda>i. ?rows ! i ! credit_col) ?idx)"
    by (rule extract_rows_map [OF rect cols idx_range])
  have v: "map ((!) ?rows) ?idx = ?valid"
    by (rule filter_rows_by_index)
  have names: "map (\<lambda>i. py_strip (py_str repr (?rows ! i ! name_col))) ?idx
      = map (\<lambda>row. py_strip (py_str repr (row ! name_col))) ?valid"
    unfolding v [symmetric] by (simp add: comp_def)
  have grades: "map (\<lambda>i. ?rows ! i ! grade_col) ?idx = map (\<lambda>row. row ! grade_col) ?valid"
    unfolding v [symmetric] by (simp add: comp_def)
  have credits: "map (\<lambda>i. ?rows ! i ! credit_col) ?idx = map (\<lambda>row. row ! credit_col) ?valid"
    unfolding v [symmetric] by (simp add: comp_def)
  have empty_iff: "(?idx = []) = (?valid = [])"
    unfolding v [symmetric] by simp
  have not_empty: "\<not> df_empty df"
    using cols rows by (simp add: df_empty_def required_cols_def)
  have enough: "\<not> shape1 df < required_cols" "\<not> shape0 df \<le> start_row"
    using cols rows by simp_all
  show ?thesis
  proof (cases "?valid = []")
    case True
    then have "?idx = []" using empty_iff by simp
    with True not_empty enough scan show ?thesis
      by (simp add: load_frame_def)
  next
    case False
    then have "?idx \<noteq> []" using empty_iff by simp
    moreover have "length ?idx = length ?valid"
      unfolding v [symmetric] by simp
    ultimately show ?thesis
      using False not_empty enough scan ext names grades credits
      by (simp add: load_frame_def Let_def)
  qed
qed

text \<open>
  C8. For a file that exists, has the extension .xlsx or .xls and is read as a DataFrame
  with at least the four columns of the layout and more rows than the header offset, the
  loader keeps exactly the data rows whose name cell is present and not empty after
  trimming white space, in row order; the other rows are left out without an error. It
  returns their number with the trimmed names, the grade cells and the credit cells, and
  when no row is kept it fails with the ValueError that quotes "no valid course data".
\<close>

theorem load_from_excel_valid_rows:
  assumes "file_exists f"
    and "file_ext f = ascii ''.xlsx'' \<or> file_ext f = ascii ''.xls''"
    and "read_excel f = Frame df"
    and "list_all (\<lambda>row. length row = shape1 df) (df_rows df)"
    and "required_cols \<le> shape1 df"
    and "start_row < shape0 df"
  shows "load_from_excel repr f =
     (let valid = filter (valid_row repr) (drop start_row (df_rows df)) in
      if valid = [] then Inl (ValueError (LoadFailed (ValueError NoValidCourseData)))
      else Inr (length valid,
                map (\<lambda>row. py_strip (py_str repr (row ! name_col))) valid,
                map (\<lambda>row. row ! grade_col) valid,
                map (\<lambda>row. row ! credit_col) valid))"
  using assms(1,2,3)
  by (auto simp: load_from_excel_def load_frame_valid_rows [OF assms(4,5,6)] Let_def)

theorem load_from_excel_valid_rows_witness:
  "\<forall>repr.
     load_from_excel repr
       \<lparr>file_exists = True, file_ext = ascii ''.xlsx'',
        read_excel = Frame
          \<lparr>shape1 = 4,
           df_rows =
             [[PNum (Fin 1), PStr (ascii ''Intro''), PNum (Fin 90), PNum (Fin 2)],
              [PNum (Fin 2), PStr (ascii '' Math ''), PNum (Fin 95), PNum (Fin 4)],
              [PNum (Fin 3), PStr (ascii ''  ''), PNum (Fin 80), PNum (Fin 3)],
              [PNum (Fin 4), PNum NaN, PNum (Fin 70), PNum (Fin 1)],
              [PNum (Fin 5), PStr (ascii ''PE''), PNum NaN, PNum (Fin 2)]]\<rparr>\<rparr>
     = Inr (2, [ascii ''Math'', ascii ''PE''], [PNum (Fin 95), PNum NaN],
            [PNum (Fin 4), PNum (Fin 2)])
   \<and> load_from_excel repr
       \<lparr>file_exists = True, file_ext = ascii ''.xls'',
        read_excel = Frame
          \<lparr>shape1 = 4,
           df_rows =
             [[PNum (Fin 1), PStr (ascii ''Intro''), PNum (Fin 90), PNum (Fin 2)],
              [PNum (Fin 3), PStr (ascii ''  ''), PNum (Fin 80), PNum (Fin 3)]]\<rparr>\<rparr>
     = Inl (ValueError (LoadFailed (ValueError NoValidCourseData)))"
proof (intro allI conjI)
  fix repr
  show "load_from_excel repr
       \<lparr>file_exists = True, file_ext = ascii ''.xlsx'',
        read_excel = Frame
          \<lparr>shape1 = 4,
           df_rows =
             [[PNum (Fin 1), PStr (ascii ''Intro''), PNum (Fin 90), PNum (Fin 2)],
              [PNum (Fin 2), PStr (ascii '' Math ''), PNum (Fin 95), PNum (Fin 4)],
              [PNum (Fin 3), PStr (ascii ''  ''), PNum (Fin 80), PNum (Fin 3)],
              [PNum (Fin 4), PNum NaN, PNum (Fin 70), PNum (Fin 1)],
              [PNum (Fin 5), PStr (ascii ''PE''), PNum NaN, PNum (Fin 2)]]\<rparr>\<rparr>
     = Inr (2, [ascii ''Math'', ascii ''PE''], [PNum (Fin 95), PNum NaN],
            [PNum (Fin 4), PNum (Fin 2)])"
    using load_from_excel_valid_rows
      [of "\<lparr>file_exists = True, file_ext = ascii ''.xlsx'',
        read_excel = Frame
          \<lparr>shape1 = 4,
           df_rows =
             [[PNum (Fin 1), PStr (ascii ''Intro''), PNum (Fin 90), PNum (Fin 2)],
              [PNum (Fin 2), PStr (ascii '' Math ''), PNum (Fin 95), PNum (Fin 4)],
              [PNum (Fin 3), PStr (ascii ''  ''), PNum (Fin 80), PNum (Fin 3)],
              [PNum (Fin 4), PNum NaN, PNum (Fin 70), PNum (Fin 1)],
              [PNum (Fin 5), PStr (ascii ''PE''), PNum NaN, PNum (Fin 2)]]\<rparr>\<rparr>"
          "\<lparr>shape1 = 4,
           df_rows =
             [[PNum (Fin 1), PStr (ascii ''Intro''), PNum (Fin 90), PNum (Fin 2)],
              [PNum (Fin 2), PStr (ascii '' Math ''), PNum (Fin 95), PNum (Fin 4)],
              [PNum (Fin 3), PStr (ascii ''  ''), PNum (Fin 80), PNum (Fin 3)],
              [PNum (Fin 4), PNum NaN, PNum (Fin 70), PNum (Fin 1)],
              [PNum (Fin 5), PStr (ascii ''PE''), PNum NaN, PNum (Fin 2)]]\<rparr>" repr]
    by (simp add: required_cols_def start_row_def name_col_def grade_col_def credit_col_def
        shape0_def valid_row_def py_strip_def is_space_def ascii_def)
  show "load_from_excel repr
       \<lparr>file_exists = True, file_ext = ascii ''.xls'',
        read_excel = Frame
          \<lparr>shape1 = 4,
           df_rows =
             [[PNum (Fin 1), PStr (ascii ''Intro''), PNum (Fin 90), PNum (Fin 2)],
              [PNum (Fin 3), PStr (ascii ''  ''), PNum (Fin 80), PNum (Fin 3)]]\<rparr>\<rparr>
     = Inl (ValueError (LoadFailed (ValueError NoValidCourseData)))"
    using load_from_excel_valid_rows
      [of "\<lparr>file_exists = True, file_ext = ascii ''.xls'',
        read_excel = Frame
          \<lparr>shape1 = 4,
           df_rows =
             [[PNum (Fin 1), PStr (ascii ''Intro''), PNum (Fin 90), PNum (Fin 2)],
              [PNum (Fin 3), PStr (ascii ''  ''), PNum (Fin 80), PNum (Fin 3)]]\<rparr>\<rparr>"
          "\<lparr>shape1 = 4,
           df_rows =
             [[PNum (Fin 1), PStr (ascii ''Intro''), PNum (Fin 90), PNum (Fin 2)],
              [PNum (Fin 3), PStr (ascii ''  ''), PNum (Fin 80), PNum (Fin 3)]]\<rparr>" repr]
    by (simp add: required_cols_def start_row_def name_col_def grade_col_def credit_col_def
        shape0_def valid_row_def py_strip_def is_space_def ascii_def)
qed

section \<open>The history store\<close>

lemma py_del_length: "i < length xs \<Longrightarrow> length (py_del xs i) = length xs - 1"
  by (simp add: py_del_def)

lemma py_del_before: "j < i \<Longrightarrow> i < length xs \<Longrightarrow> py_del xs i ! j = xs ! j"
  by (simp add: py_del_def nth_append)

lemma py_del_after: "i \<le> j \<Longrightarrow> j < length xs - 1 \<Longrightarrow> py_del xs i ! j = xs ! Suc j"
  by (auto simp: py_del_def nth_append min_def)

text \<open>
  C9. When the history file holds the records h and can be written, \<^verbatim>\<open>delete_record(k)\<close>
  with 0 \<le> k < length h returns True and leaves the records of h without the one at
  position k: one record fewer, the records before k where they were, every later record
  one position down. With k out of range of the history that \<^verbatim>\<open>load_history\<close> reads,
  it returns False and the store is unchanged.
\<close>

theorem delete_record_spec:
  "(history_file st = Saved h \<and> writable st \<and> 0 \<le> k \<and> k < int (length h) \<longrightarrow>
      delete_record st k
        = (True, st\<lparr>history_file := Saved (take (nat k) h @ drop (Suc (nat k)) h)\<rparr>)
      \<and> length (load_history (snd (delete_record st k))) = length h - 1
      \<and> (\<forall>j. j < nat k \<longrightarrow> load_history (snd (delete_record st k)) ! j = h ! j)
      \<and> (\<forall>j. nat k \<le> j \<and> j < length h - 1 \<longrightarrow>
            load_history (snd (delete_record st k)) ! j = h ! Suc j))
   \<and> (\<not> (0 \<le> k \<and> k < int (length (load_history st))) \<longrightarrow>
        delete_record st k = (False, st))"
proof (intro conjI impI)
  assume out: "\<not> (0 \<le> k \<and> k < int (length (load_history st)))"
  then show "delete_record st k = (False, st)"
    by (auto simp: delete_record_def Let_def)
next
  assume inr: "history_file st = Saved h \<and> writable st \<and> 0 \<le> k \<and> k < int (length h)"
  then have h: "load_history st = h" and ne: "h \<noteq> []" and lt: "nat k < length h"
    by (auto simp: load_history_def)
  have del: "delete_record st k = (True, st\<lparr>history_file := Saved (py_del h (nat k))\<rparr>)"
    using inr h ne by (simp add: delete_record_def Let_def)
  then show "delete_record st k
        = (True, st\<lparr>history_file := Saved (take (nat k) h @ drop (Suc (nat k)) h)\<rparr>)"
    by (simp add: py_del_def)
  have new: "load_history (snd (delete_record st k)) = py_del h (nat k)"
    by (simp add: del load_history_def)
  show "length (load_history (snd (delete_record st k))) = length h - 1"
    using lt by (simp add: new py_del_length)
  show "\<forall>j. j < nat k \<longrightarrow> load_history (snd (delete_record st k)) ! j = h ! j"
    using lt by (simp add: new py_del_before)
  show "\<forall>j. nat k \<le> j \<and> j < length h - 1 \<longrightarrow>
            load_history (snd (delete_record st k)) ! j = h ! Suc j"
    by (simp add: new py_del_after)
qed

theorem delete_record_spec_witness:
  "writable \<lparr>history_file = Saved [ascii ''a'', ascii ''b'', ascii ''c''], writable = True\<rparr>
   \<and> (0 :: int) \<le> 1 \<and> (1 :: int) < int (length [ascii ''a'', ascii ''b'', ascii ''c''])
   \<and> delete_record
       \<lparr>history_file = Saved [ascii ''a'', ascii ''b'', ascii ''c''], writable = True\<rparr> 1
     = (True, \<lparr>history_file = Saved [ascii ''a'', ascii ''c''], writable = True\<rparr>)
   \<and> delete_record
       \<lparr>history_file = Saved [ascii ''a'', ascii ''b'', ascii ''c''], writable = True\<rparr> 3
     = (False,
        \<lparr>history_file = Saved [ascii ''a'', ascii ''b'', ascii ''c''], writable = True\<rparr>)
   \<and> delete_record
       \<lparr>history_file = Saved [ascii ''a'', ascii ''b'', ascii ''c''], writable = True\<rparr> (- 1)
     = (False,
        \<lparr>history_file = Saved [ascii ''a'', ascii ''b'', ascii ''c''], writable = True\<rparr>)"
  using
    delete_record_spec
      [of "\<lparr>history_file = Saved [ascii ''a'', ascii ''b'', ascii ''c''], writable = True\<rparr>"
          "[ascii ''a'', ascii ''b'', ascii ''c'']" 1]
    delete_record_spec
      [of "\<lparr>history_file = Saved [ascii ''a'', ascii ''b'', ascii ''c''], writable = True\<rparr>"
          "[]" 3]
    delete_record_spec
      [of "\<lparr>history_file = Saved [ascii ''a'', ascii ''b'', ascii ''c''], writable = True\<rparr>"
          "[]" "- 1"]
  by (simp add: load_history_def)

section \<open>Normalization in \<^verbatim>\<open>load_data\<close>\<close>

text \<open>
  What the grade loop does with each kind of raw value: a label gives its constant, a
  number is clamped to [0, 100], a string that \<^verbatim>\<open>float\<close> reads as a number likewise, and
  a value that \<^verbatim>\<open>float\<close> rejects gives 0. The result is in [0, 100] or it is NaN.
\<close>

lemma GRADE_MAPPING_values:
  "GRADE_MAPPING [20248, 31168] = Some (Fin 95)"
  "GRADE_MAPPING [33391, 22909] = Some (Fin 85)"
  "GRADE_MAPPING [20013, 31561] = Some (Fin 75)"
  "GRADE_MAPPING [21450, 26684] = Some (Fin 65)"
  "GRADE_MAPPING [19981, 21450, 26684] = Some (Fin 0)"
  by (simp_all add: GRADE_MAPPING_def)

lemma GRADE_MAPPING_range:
  "GRADE_MAPPING s = Some v \<Longrightarrow> v \<in> {Fin 95, Fin 85, Fin 75, Fin 65, Fin 0}"
  by (auto simp: GRADE_MAPPING_def split: if_splits)

lemma convert_grade_label:
  "GRADE_MAPPING s = Some v \<Longrightarrow> convert_grade parse (PStr s) = v"
  by (simp add: convert_grade_def)

lemma convert_grade_number:
  "convert_grade parse (PNum (Fin x)) = Fin (if x < 0 then 0 else if 100 < x then 100 else x)"
  by (simp add: convert_grade_def)

lemma convert_grade_string:
  "GRADE_MAPPING s = None \<Longrightarrow> parse s = Some (Fin x) \<Longrightarrow>
     convert_grade parse (PStr s) = Fin (if x < 0 then 0 else if 100 < x then 100 else x)"
  by (simp add: convert_grade_def)

lemma convert_grade_unreadable:
  "GRADE_MAPPING s = None \<Longrightarrow> parse s = None \<Longrightarrow> convert_grade parse (PStr s) = Fin 0"
  "convert_grade parse PNone = Fin 0"
  by (simp_all add: convert_grade_def)

lemma convert_grade_range:
  "convert_grade parse g = NaN
   \<or> (\<exists>x. convert_grade parse g = Fin x \<and> 0 \<le> x \<and> x \<le> 100)"
proof (cases "grade_label g")
  case (Some v)
  then obtain s where "g = PStr s" "GRADE_MAPPING s = Some v"
    by (cases g) simp_all
  then show ?thesis
    using GRADE_MAPPING_range [of s v] by (auto simp: convert_grade_def)
next
  case None
  show ?thesis
  proof (cases "py_float parse g")
    case (Inl e)
    with None show ?thesis by (simp add: convert_grade_def)
  next
    case (Inr v)
    with None show ?thesis by (cases v) (auto simp: convert_grade_def)
  qed
qed

text \<open>
  C6, on an empty grade cell. The loader keeps a row whose grade cell is empty and passes
  the cell on as NaN. Both range checks of the grade loop are comparisons, which are false
  on NaN, so \<^verbatim>\<open>load_data\<close> stores NaN as the grade: a value that is not in [0, 100],
  where the claim has every grade normalized into [0, 100] and a grade that is not a
  number set to 0.
\<close>

theorem nan_grade_is_stored:
  "load_from_excel repr
     \<lparr>file_exists = True, file_ext = ascii ''.xlsx'',
      read_excel = Frame
        \<lparr>shape1 = 4,
         df_rows =
           [[PNum (Fin 1), PStr (ascii ''Math''), PNum (Fin 95), PNum (Fin 4)],
            [PNum (Fin 2), PStr (ascii ''PE''), PNum NaN, PNum (Fin 2)]]\<rparr>\<rparr>
     = Inr (1, [ascii ''PE''], [PNum NaN], [PNum (Fin 2)])
   \<and> load_data parse init_state [ascii ''PE''] [PNum NaN] [PNum (Fin 2)]
     = Inr \<lparr>course_names = [ascii ''PE''], course_grades = [NaN],
            course_credits = [Fin 2], course_count = 1, total_credits = Fin 2\<rparr>
   \<and> convert_grade parse (PNum NaN) = NaN
   \<and> \<not> py_le (Fin 0) NaN \<and> \<not> py_le NaN (Fin 100)"
proof -
  have "load_frame repr
        \<lparr>shape1 = 4,
         df_rows =
           [[PNum (Fin 1), PStr (ascii ''Math''), PNum (Fin 95), PNum (Fin 4)],
            [PNum (Fin 2), PStr (ascii ''PE''), PNum NaN, PNum (Fin 2)]]\<rparr>
     = Inr (1, [ascii ''PE''], [PNum NaN], [PNum (Fin 2)])"
    by (simp add: load_frame_valid_rows required_cols_def start_row_def name_col_def
        grade_col_def credit_col_def shape0_def valid_row_def py_strip_def is_space_def
        ascii_def)
  then show ?thesis
    by (simp add: load_from_excel_def load_data_def init_state_def convert_credit_def
        convert_grade_def py_sum_def Let_def)
qed

text \<open>
  The credit loop: a stored credit is a number that is not negative, or NaN. After a
  successful load the three lists have the length \<^verbatim>\<open>course_count\<close>, which is positive,
  \<^verbatim>\<open>total_credits\<close> is the sum of the stored credits, and nothing of the state before
  the call is left.
\<close>

lemma convert_credit_range:
  "convert_credit parse c = NaN \<or> (\<exists>x. convert_credit parse c = Fin x \<and> 0 \<le> x)"
proof (cases "py_float parse c")
  case (Inl e)
  then show ?thesis by (simp add: convert_credit_def)
next
  case (Inr v)
  then show ?thesis by (cases v) (auto simp: convert_credit_def)
qed

lemma load_data_lengths:
  assumes "load_data parse s names grades credits = Inr s'"
  shows "length (course_names s') = course_count s'
    \<and> length (course_grades s') = course_count s'
    \<and> length (course_credits s') = course_count s'
    \<and> 0 < course_count s'
    \<and> total_credits s' = py_sum (course_credits s')"
  using assms by (auto simp: load_data_def Let_def split: if_splits)

lemma load_data_fresh:
  "load_data parse s names grades credits = load_data parse s0 names grades credits"
  by (cases s; cases s0) (simp add: load_data_def Let_def)

text \<open>
  C7, on an empty credit cell. The loader keeps a row whose credit cell is empty and
  passes the cell on as NaN. The check \<^verbatim>\<open>credit_value < 0\<close> is false on NaN, so
  \<^verbatim>\<open>load_data\<close> succeeds and stores NaN as the credit, which is not \<^verbatim>\<open>>= 0\<close>, where the
  claim has every stored credit non-negative; \<^verbatim>\<open>total_credits\<close> is NaN as well.
\<close>

theorem nan_credit_is_stored:
  "load_from_excel repr
     \<lparr>file_exists = True, file_ext = ascii ''.xlsx'',
      read_excel = Frame
        \<lparr>shape1 = 4,
         df_rows =
           [[PNum (Fin 1), PStr (ascii ''Math''), PNum (Fin 95), PNum (Fin 4)],
            [PNum (Fin 2), PStr (ascii ''PE''), PNum (Fin 90), PNum NaN]]\<rparr>\<rparr>
     = Inr (1, [ascii ''PE''], [PNum (Fin 90)], [PNum NaN])
   \<and> load_data parse init_state [ascii ''PE''] [PNum (Fin 90)] [PNum NaN]
     = Inr \<lparr>course_names = [ascii ''PE''], course_grades = [Fin 90],
            course_credits = [NaN], course_count = 1, total_credits = NaN\<rparr>
   \<and> convert_credit parse (PNum NaN) = NaN
   \<and> \<not> py_ge NaN (Fin 0)"
proof -
  have "load_frame repr
        \<lparr>shape1 = 4,
         df_rows =
           [[PNum (Fin 1), PStr (ascii ''Math''), PNum (Fin 95), PNum (Fin 4)],
            [PNum (Fin 2), PStr (ascii ''PE''), PNum (Fin 90), PNum NaN]]\<rparr>
     = Inr (1, [ascii ''PE''], [PNum (Fin 90)], [PNum NaN])"
    by (simp add: load_frame_valid_rows required_cols_def start_row_def name_col_def
        grade_col_def credit_col_def shape0_def valid_row_def py_strip_def is_space_def
        ascii_def)
  then show ?thesis
    by (simp add: load_from_excel_def load_data_def init_state_def convert_credit_def
        convert_grade_def py_sum_def Let_def)
qed

section \<open>The range of the grade points\<close>

text \<open>
  With numbers for grades and credits, grades at most 100, credits that are not negative
  and a positive total that is their sum, every grade point is in [0, 5], and so is the
  value that \<^verbatim>\<open>calculate_overall_gpa\<close> returns.
\<close>

lemma round_half_even_bounds:
  assumes "of_int a \<le> x" and "x \<le> of_int b"
  shows "a \<le> round_half_even x \<and> round_half_even x \<le> b"
proof -
  have lo: "a \<le> \<lfloor>x\<rfloor>" using assms(1) by (simp add: le_floor_iff)
  have hi: "\<lfloor>x\<rfloor> \<le> b" using assms(2) by (simp add: floor_le_iff)
  show ?thesis
  proof (cases "\<lfloor>x\<rfloor> = b")
    case True
    then have "x - of_int \<lfloor>x\<rfloor> \<le> 0" using assms(2) by simp
    then have "round_half_even x = \<lfloor>x\<rfloor>"
      by (simp add: round_half_even_def Let_def)
    with lo hi show ?thesis by simp
  next
    case False
    with hi have "\<lfloor>x\<rfloor> + 1 \<le> b" by simp
    moreover have "round_half_even x = \<lfloor>x\<rfloor> \<or> round_half_even x = \<lfloor>x\<rfloor> + 1"
      by (simp add: round_half_even_def Let_def)
    ultimately show ?thesis using lo by auto
  qed
qed

lemma round1_range:
  assumes "0 \<le> x" and "x \<le> 5"
  shows "0 \<le> round1 x \<and> round1 x \<le> 5"
proof -
  have "of_int 0 \<le> x * 10" and "x * 10 \<le> of_int 50"
    using assms by simp_all
  then have "0 \<le> round_half_even (x * 10) \<and> round_half_even (x * 10) \<le> 50"
    by (rule round_half_even_bounds)
  then have "0 \<le> (of_int (round_half_even (x * 10)) :: real)"
    and "(of_int (round_half_even (x * 10)) :: real) \<le> 50"
    by simp_all
  then show ?thesis by (simp add: round1_def)
qed

lemma spec_course_gpa_range:
  assumes "g \<le> 100"
  shows "0 \<le> spec_course_gpa g \<and> spec_course_gpa g \<le> 5"
proof (cases "g < 60")
  case True
  then show ?thesis by (simp add: spec_course_gpa_def)
next
  case False
  then have "0 \<le> spec_gpa_formula g" and "spec_gpa_formula g \<le> 5"
    using assms by (simp_all add: spec_gpa_formula_linear)
  then show ?thesis
    using False round1_range by (simp add: spec_course_gpa_def)
qed

lemma weighted_sum_range:
  fixes ps cs :: "real list"
  assumes "length ps = length cs"
    and "list_all (\<lambda>p. 0 \<le> p \<and> p \<le> 5) ps" and "list_all (\<lambda>c. 0 \<le> c) cs"
  shows "0 \<le> sum_list (map (\<lambda>(p, c). p * c) (zip ps cs))
    \<and> sum_list (map (\<lambda>(p, c). p * c) (zip ps cs)) \<le> 5 * sum_list cs"
  using assms
proof (induction ps cs rule: list_induct2)
  case Nil
  show ?case by simp
next
  case (Cons p ps c cs)
  then have ih: "0 \<le> sum_list (map (\<lambda>(p, c). p * c) (zip ps cs))"
    "sum_list (map (\<lambda>(p, c). p * c) (zip ps cs)) \<le> 5 * sum_list cs"
    by simp_all
  from Cons.prems have p: "0 \<le> p" "p \<le> 5" and c: "0 \<le> c" by simp_all
  have "0 \<le> p * c" using p c by simp
  moreover have "p * c \<le> 5 * c" using p c by (simp add: mult_right_mono)
  ultimately show ?case using ih by simp
qed

lemma overall_gpa_in_range:
  assumes count: "course_count s \<noteq> 0"
    and grades: "course_grades s = map Fin gs" and credits: "course_credits s = map Fin cs"
    and len: "length gs = length cs"
    and g100: "list_all (\<lambda>g. 0 \<le> g \<and> g \<le> 100) gs"
    and c0: "list_all (\<lambda>c. 0 \<le> c) cs"
    and total: "total_credits s = Fin (sum_list cs)" and pos: "0 < sum_list cs"
  shows "\<exists>v. calculate_overall_gpa s = Inr (Fin v) \<and> 0 \<le> v \<and> v \<le> 5"
proof -
  let ?ps = "map spec_course_gpa gs"
  let ?w = "sum_list (map (\<lambda>(p, c). p * c) (zip ?ps cs))"
  have ps: "list_all (\<lambda>p. 0 \<le> p \<and> p \<le> 5) ?ps"
    using g100 spec_course_gpa_range by (simp add: list_all_iff)
  have len': "length ?ps = length cs" using len by simp
  have w: "0 \<le> ?w" "?w \<le> 5 * sum_list cs"
    using weighted_sum_range [OF len' ps c0] by simp_all
  have q0: "0 \<le> ?w / sum_list cs" using w(1) pos by simp
  have q5: "?w / sum_list cs \<le> 5" using w(2) pos by (simp add: pos_divide_le_eq)
  have gpa: "map course_gpa_of (map Fin gs) = map Fin ?ps"
    by (simp add: course_gpa_of_Fin)
  have "py_sum (map (\<lambda>(gpa, credit). py_mul gpa credit)
          (zip (map course_gpa_of (course_grades s)) (course_credits s))) = Fin ?w"
    unfolding grades credits gpa weighted_Fin [OF len'] py_sum_Fin ..
  then have "calculate_overall_gpa s = Inr (Fin (round1 (?w / sum_list cs)))"
    using count total pos q0
    by (simp add: calculate_overall_gpa_def calculate_course_gpa_def Let_def)
  with round1_range [OF q0 q5] show ?thesis by blast
qed

text \<open>
  C10, on an empty credit cell. One course of grade 100 whose credit is NaN loads, and
  its grade is in [0, 100]. Its grade point is 5.0, but \<^verbatim>\<open>total_credits\<close> is NaN, which
  is not \<^verbatim>\<open>== 0\<close>, and \<^verbatim>\<open>calculate_overall_gpa\<close> returns NaN: a value that is not in
  [0.0, 5.0], where the claim has every returned value in that range.
\<close>

theorem nan_credit_overall_gpa:
  "load_data parse init_state [ascii ''PE''] [PNum (Fin 100)] [PNum NaN]
     = Inr \<lparr>course_names = [ascii ''PE''], course_grades = [Fin 100],
            course_credits = [NaN], course_count = 1, total_credits = NaN\<rparr>
   \<and> list_all (\<lambda>g. py_le (Fin 0) g \<and> py_le g (Fin 100)) [Fin 100]
   \<and> calculate_course_gpa
       \<lparr>course_names = [ascii ''PE''], course_grades = [Fin 100],
        course_credits = [NaN], course_count = 1, total_credits = NaN\<rparr>
     = Inr [Fin 5]
   \<and> calculate_overall_gpa
       \<lparr>course_names = [ascii ''PE''], course_grades = [Fin 100],
        course_credits = [NaN], course_count = 1, total_credits = NaN\<rparr>
     = Inr NaN
   \<and> \<not> py_le (Fin 0) NaN \<and> \<not> py_le NaN (Fin 5)"
  by (simp add: load_data_def init_state_def convert_credit_def convert_grade_def
      py_sum_def Let_def calculate_overall_gpa_def calculate_course_gpa_def course_gpa_of_Fin
      spec_course_gpa_def spec_gpa_formula_linear round1_def round_half_even_def)

end
